theory Spec2Isabelle
  imports Complex_Main "HOL-Library.Multiset" "HOL-Library.AList" "HOL-Library.Sublist"
begin

section \<open>Reformatting Detectron2 predictions\<close>

text \<open>
  The notebook \<^verbatim>\<open>object_detection/detectron2_training.ipynb\<close> contains one function of
  its own, \<^verbatim>\<open>format_detectron2_predictions(ins, num_classes)\<close>, and a straight-line
  script around it. This theory embeds both.

  Scalars: the box tensor of a Detectron2 \<^verbatim>\<open>Boxes\<close> object is a float32 tensor of shape
  \<open>(N, 4)\<close> and the scores are float32; \<^verbatim>\<open>.item()\<close> widens a score to a Python float
  exactly and \<^verbatim>\<open>np.array(..., dtype=np.float32)\<close> narrows it back to the same value.
  The scalars are therefore kept abstract (the type variable \<open>'a\<close>) and no rounding is
  modelled.
\<close>

subsection \<open>Python and numpy values\<close>

datatype py_error = IndexError | ValueError | AttributeError | TypeError | NameError

datatype np_dtype = Float32 | Float64

text \<open>A numpy array: its dtype, its shape and its elements in row-major order.\<close>

record 'a ndarray =
  dtype :: np_dtype
  shape :: "nat list"
  data :: "'a list"

text \<open>
  The fields of an \<^verbatim>\<open>Instances\<close> object that the function reads:
  \<^verbatim>\<open>fields['pred_boxes'].tensor\<close> (one row of four coordinates per detection),
  \<^verbatim>\<open>fields['pred_classes']\<close> and \<^verbatim>\<open>fields['scores']\<close>.
\<close>

record 'a instances =
  pred_boxes :: "('a \<times> 'a \<times> 'a \<times> 'a) list"
  pred_classes :: "int list"
  scores :: "'a list"

text \<open>\<^verbatim>\<open>t[i]\<close> on a tensor or array with \<open>i\<close> taken from a \<^verbatim>\<open>range\<close>: out of range raises.\<close>

definition tensor_get :: "'b list \<Rightarrow> nat \<Rightarrow> py_error + 'b" where
  "tensor_get xs i = (if i < length xs then Inr (xs ! i) else Inl IndexError)"

text \<open>
  The position that \<^verbatim>\<open>xs[i]\<close> denotes in a Python list of length \<open>n\<close>: a negative
  index counts from the end, anything else out of range raises.
\<close>

definition list_index :: "nat \<Rightarrow> int \<Rightarrow> py_error + nat" where
  "list_index n i =
     (if 0 \<le> i \<and> i < int n then Inr (nat i)
      else if i < 0 \<and> - int n \<le> i then Inr (nat (int n + i))
      else Inl IndexError)"

text \<open>\<^verbatim>\<open>list(boxes[i])\<close>: the four coordinates of one box as a list.\<close>

fun list_of_box :: "'a \<times> 'a \<times> 'a \<times> 'a \<Rightarrow> 'a list" where
  "list_of_box (x1, y1, x2, y2) = [x1, y1, x2, y2]"

text \<open>
  \<^verbatim>\<open>np.array(rows, dtype=dt)\<close> on a list of lists of scalars. The empty list gives a
  one-dimensional array of shape \<open>(0,)\<close>; rows of different lengths raise.
\<close>

definition np_array :: "'a list list \<Rightarrow> np_dtype \<Rightarrow> py_error + 'a ndarray" where
  "np_array rows dt =
     (case rows of
        [] \<Rightarrow> Inr \<lparr>dtype = dt, shape = [0], data = []\<rparr>
      | r # _ \<Rightarrow>
          if list_all (\<lambda>x. length x = length r) rows
          then Inr \<lparr>dtype = dt, shape = [length rows, length r], data = concat rows\<rparr>
          else Inl ValueError)"

text \<open>
  \<^verbatim>\<open>a.reshape(shp)\<close>. The element count must be kept. One entry \<open>-1\<close> is inferred from
  the others, which fails when the others multiply to zero or do not divide the size; any
  other negative entry raises.
\<close>

definition reshape :: "'a ndarray \<Rightarrow> int list \<Rightarrow> py_error + 'a ndarray" where
  "reshape a shp =
     (let size = int (length (data a)) in
      if list_all (\<lambda>d. 0 \<le> d) shp then
        (if prod_list shp = size then Inr (a\<lparr>shape := map nat shp\<rparr>) else Inl ValueError)
      else if list_all (\<lambda>d. - 1 \<le> d) shp \<and> length (filter (\<lambda>d. d = - 1) shp) = 1 then
        (let known = prod_list (filter (\<lambda>d. d \<noteq> - 1) shp) in
         if known = 0 then Inl ValueError
         else if size mod known = 0
         then Inr (a\<lparr>shape := map (\<lambda>d. nat (if d = - 1 then size div known else d)) shp\<rparr>)
         else Inl ValueError)
      else Inl ValueError)"

subsection \<open>The function\<close>

text \<open>
  The first loop, over \<^verbatim>\<open>range(0, len(fields['pred_classes']))\<close>:
  \<^verbatim>\<open>
    pred_class = fields['pred_classes'][i].item()
    probs = ins.get_fields()['scores'][i].item()
    box_cord = list(boxes[i])
    box_cord.append(probs)
    res[pred_class].append(box_cord)
  \<close>
\<close>

fun group_loop ::
  "'a instances \<Rightarrow> nat list \<Rightarrow> 'a list list list \<Rightarrow> py_error + 'a list list list" where
  "group_loop ins [] res = Inr res"
| "group_loop ins (i # rest) res =
     (case tensor_get (pred_classes ins) i of
        Inl e \<Rightarrow> Inl e
      | Inr pred_class \<Rightarrow>
     (case tensor_get (scores ins) i of
        Inl e \<Rightarrow> Inl e
      | Inr probs \<Rightarrow>
     (case tensor_get (pred_boxes ins) i of
        Inl e \<Rightarrow> Inl e
      | Inr b \<Rightarrow>
     (let box_cord = list_of_box b @ [probs] in
      case list_index (length res) pred_class of
        Inl e \<Rightarrow> Inl e
      | Inr c \<Rightarrow> group_loop ins rest (res[c := res ! c @ [box_cord]])))))"

text \<open>
  The second loop, over \<^verbatim>\<open>res\<close>:
  \<^verbatim>\<open>
    if len(i)==0:
        q = np.array(i,dtype=np.float32).reshape((0,num_classes))
    else:
        q = np.array(i,dtype=np.float32)
    res2.append(q)
  \<close>
\<close>

fun array_loop ::
  "int \<Rightarrow> 'a list list list \<Rightarrow> 'a ndarray list \<Rightarrow> py_error + 'a ndarray list" where
  "array_loop num_classes [] res2 = Inr res2"
| "array_loop num_classes (i # rest) res2 =
     (case (if length i = 0
            then (case np_array i Float32 of
                    Inl e \<Rightarrow> Inl e
                  | Inr a \<Rightarrow> reshape a [0, num_classes])
            else np_array i Float32) of
        Inl e \<Rightarrow> Inl e
      | Inr q \<Rightarrow> array_loop num_classes rest (res2 @ [q]))"

definition format_detectron2_predictions ::
  "'a instances \<Rightarrow> int \<Rightarrow> py_error + 'a ndarray list" where
  "format_detectron2_predictions ins num_classes =
     (let res = replicate (nat num_classes) [] in
      case group_loop ins [0..<length (pred_classes ins)] res of
        Inl e \<Rightarrow> Inl e
      | Inr res' \<Rightarrow> array_loop num_classes res' [])"

subsection \<open>Vocabulary for the properties\<close>

text \<open>
  Detectron2's \<^verbatim>\<open>Instances\<close> keeps all its fields at one length (its \<^verbatim>\<open>set\<close> method
  asserts it), so an instance collection has one box, one class and one score per detection.
\<close>

definition wf_instances :: "'a instances \<Rightarrow> bool" where
  "wf_instances ins \<longleftrightarrow>
     length (pred_boxes ins) = length (pred_classes ins) \<and>
     length (scores ins) = length (pred_classes ins)"

definition classes_in_range :: "'a instances \<Rightarrow> int \<Rightarrow> bool" where
  "classes_in_range ins num_classes \<longleftrightarrow>
     list_all (\<lambda>c. 0 \<le> c \<and> c < num_classes) (pred_classes ins)"

text \<open>The number of detections, \<^verbatim>\<open>len(fields['pred_classes'])\<close>.\<close>

definition num_detections :: "'a instances \<Rightarrow> nat" where
  "num_detections ins = length (pred_classes ins)"

text \<open>The row that detection \<open>i\<close> stands for: its four coordinates, then its score.\<close>

definition detection_row :: "'a instances \<Rightarrow> nat \<Rightarrow> 'a list" where
  "detection_row ins i = list_of_box (pred_boxes ins ! i) @ [scores ins ! i]"

text \<open>The detections whose class is \<open>c\<close>, in input order.\<close>

definition detections_of_class :: "'a instances \<Rightarrow> nat \<Rightarrow> nat list" where
  "detections_of_class ins c =
     filter (\<lambda>i. pred_classes ins ! i = int c) [0..<num_detections ins]"

text \<open>
  The detections that \<^verbatim>\<open>res[pred_class]\<close> sends to position \<open>c\<close> of a list of length
  \<open>n\<close>, in input order; this follows Python's indexing, negative classes included.
\<close>

definition detections_at :: "'a instances \<Rightarrow> nat \<Rightarrow> nat \<Rightarrow> nat list" where
  "detections_at ins n c =
     filter (\<lambda>i. list_index n (pred_classes ins ! i) = Inr c) [0..<num_detections ins]"

text \<open>\<^verbatim>\<open>a.shape[0]\<close> and \<^verbatim>\<open>a.shape[1]\<close> of a two-dimensional array.\<close>

definition nrows :: "'a ndarray \<Rightarrow> nat" where
  "nrows a = (case shape a of [r, c] \<Rightarrow> r | _ \<Rightarrow> 0)"

definition ncols :: "'a ndarray \<Rightarrow> nat" where
  "ncols a = (case shape a of [r, c] \<Rightarrow> c | _ \<Rightarrow> 0)"

text \<open>The rows \<^verbatim>\<open>a[0], a[1], ...\<close> of a two-dimensional array, read off the flat data.\<close>

definition rows_of :: "'a ndarray \<Rightarrow> 'a list list" where
  "rows_of a = map (\<lambda>k. take (ncols a) (drop (k * ncols a) (data a))) [0..<nrows a]"

text \<open>What the second loop makes of one group of five-element rows.\<close>

definition class_array :: "int \<Rightarrow> 'a list list \<Rightarrow> 'a ndarray" where
  "class_array num_classes rows =
     (if rows = [] then \<lparr>dtype = Float32, shape = [0, nat num_classes], data = []\<rparr>
      else \<lparr>dtype = Float32, shape = [length rows, 5], data = concat rows\<rparr>)"

section \<open>The notebook around the function\<close>

text \<open>
  The code cells of the notebook run top to bottom. Each statement that calls the
  framework, writes a configuration field or touches a file appends one event, with the
  arguments of the call, to a trace; an exception stops the run where it is raised. What
  the framework computes is a parameter of the model.
\<close>

subsection \<open>Configuration, events and the state of the run\<close>

text \<open>
  A value stored in the configuration node. A float literal is kept as the decimal that
  the source writes.
\<close>

datatype cfg_value =
    CStr string
  | CInt int
  | CFloat real
  | CTuple "string list"
  | CList "int list"

text \<open>The configuration node, keyed by the dotted path of a field.\<close>

type_synonym cfg_node = "(string \<times> cfg_value) list"

datatype ('img, 'a) event =
    Wget string
  | RegisterCocoInstances string string string
  | GetCfg
  | MergeFromFile string
  | SetCfg string cfg_value
  | MakeDirs string
  | DefaultTrainer cfg_node
  | ResumeOrLoad bool
  | Train
  | COCOEvaluator string string
  | BuildDetectionTestLoader cfg_node string
  | DefaultPredictor cfg_node
  | PickleLoad string
  | ImRead string
  | Predictor 'img
  | FormatPredictions "'a instances" int
  | PickleDump string "'a ndarray list list"

text \<open>
  What the notebook takes from outside: the framework's default configuration, the model
  zoo, the image reader and the predictor that \<^verbatim>\<open>DefaultPredictor(cfg)\<close> builds from the
  configuration it is given (its result is \<^verbatim>\<open>outputs["instances"].to("cpu")\<close>).
\<close>

record ('img, 'a) framework =
  get_cfg :: cfg_node
  get_config_file :: "string \<Rightarrow> string"
  yaml_file :: "string \<Rightarrow> cfg_node"
  get_checkpoint_url :: "string \<Rightarrow> string"
  imread :: "string \<Rightarrow> 'img"
  run_predictor :: "cfg_node \<Rightarrow> 'img \<Rightarrow> 'a instances"

text \<open>
  An entry of the \<^verbatim>\<open>dataset\<close> that the last cell names; only \<^verbatim>\<open>i['seg_map']\<close> is read.
\<close>

record image_info =
  seg_map :: string

text \<open>
  The names of the notebook that the cells read after the setup (\<^verbatim>\<open>cfg\<close>, \<^verbatim>\<open>predictor\<close>,
  \<^verbatim>\<open>dataset\<close>, \<^verbatim>\<open>results\<close>), the trace of events and the exception that stopped the run,
  if any. A name that no statement has bound yet is \<open>None\<close>, and reading it raises
  \<^verbatim>\<open>NameError\<close>.
\<close>

record ('img, 'a) world =
  cfg :: cfg_node
  predictor :: "cfg_node option"
  dataset :: "image_info list option"
  results :: "'a ndarray list list"
  trace :: "('img, 'a) event list"
  raised :: "py_error option"

text \<open>
  A fresh kernel. No cell and no import of the notebook binds \<^verbatim>\<open>dataset\<close>, so it stays
  unbound throughout a run from the top.
\<close>

definition init_world :: "('img, 'a) world" where
  "init_world =
     \<lparr>cfg = [], predictor = None, dataset = None, results = [], trace = [], raised = None\<rparr>"

definition emit :: "('img, 'a) event \<Rightarrow> ('img, 'a) world \<Rightarrow> ('img, 'a) world" where
  "emit e w = w\<lparr>trace := trace w @ [e]\<rparr>"

definition raise :: "py_error \<Rightarrow> ('img, 'a) world \<Rightarrow> ('img, 'a) world" where
  "raise e w = w\<lparr>raised := Some e\<rparr>"

text \<open>Statements in sequence; the first exception ends the run.\<close>

fun run_all ::
  "(('img, 'a) world \<Rightarrow> ('img, 'a) world) list \<Rightarrow> ('img, 'a) world \<Rightarrow> ('img, 'a) world" where
  "run_all [] w = w"
| "run_all (s # ss) w = (let w' = s w in if raised w' = None then run_all ss w' else w')"

text \<open>\<^verbatim>\<open>cfg.K = v\<close>.\<close>

definition set_cfg :: "string \<Rightarrow> cfg_value \<Rightarrow> ('img, 'a) world \<Rightarrow> ('img, 'a) world" where
  "set_cfg k v w = emit (SetCfg k v) (w\<lparr>cfg := AList.update k v (cfg w)\<rparr>)"

text \<open>Reading a field that the script uses as a string, or as an integer.\<close>

definition cfg_str :: "cfg_node \<Rightarrow> string \<Rightarrow> py_error + string" where
  "cfg_str c k =
     (case map_of c k of
        None \<Rightarrow> Inl AttributeError
      | Some (CStr s) \<Rightarrow> Inr s
      | Some _ \<Rightarrow> Inl TypeError)"

definition cfg_int :: "cfg_node \<Rightarrow> string \<Rightarrow> py_error + int" where
  "cfg_int c k =
     (case map_of c k of
        None \<Rightarrow> Inl AttributeError
      | Some (CInt n) \<Rightarrow> Inr n
      | Some _ \<Rightarrow> Inl TypeError)"

text \<open>\<^verbatim>\<open>os.path.join(a, b)\<close> on POSIX paths.\<close>

definition path_join :: "string \<Rightarrow> string \<Rightarrow> string" where
  "path_join a b =
     (if take 1 b = ''/'' then b
      else if a = [] \<or> last a = CHR ''/'' then a @ b
      else a @ ''/'' @ b)"

text \<open>
  \<^verbatim>\<open>s.replace(old, new)\<close>: every occurrence of \<open>old\<close>, left to right and without overlap;
  an empty \<open>old\<close> matches before every character and at the end.
\<close>

fun replace_from :: "string \<Rightarrow> string \<Rightarrow> string \<Rightarrow> string" where
  "replace_from old new [] = []"
| "replace_from old new (c # cs) =
     (if take (length old) (c # cs) = old
      then new @ replace_from old new (drop (length old - 1) cs)
      else c # replace_from old new cs)"

definition replace :: "string \<Rightarrow> string \<Rightarrow> string \<Rightarrow> string" where
  "replace s old new =
     (if old = [] then new @ concat (map (\<lambda>c. c # new) s) else replace_from old new s)"

subsection \<open>The cells\<close>

definition IMAGE_PATH :: string where
  "IMAGE_PATH = ''../data/coco/''"

definition TRAIN_PATH :: string where
  "TRAIN_PATH = path_join IMAGE_PATH ''train2017''"

definition VAL_PATH :: string where
  "VAL_PATH = path_join IMAGE_PATH ''val2017''"

definition zoo_model :: string where
  "zoo_model = ''COCO-Detection/faster_rcnn_X_101_32x8d_FPN_3x.yaml''"

definition cell_download :: "('img, 'a) world \<Rightarrow> ('img, 'a) world" where
  "cell_download = run_all
     [emit (Wget ''https://cleanlab-public.s3.amazonaws.com/ObjectDetectionBenchmarking/DATASET_annotations/instances_val2017_5labels.json''),
      emit (Wget ''https://cleanlab-public.s3.amazonaws.com/ObjectDetectionBenchmarking/DATASET_annotations/instances_train2017_5labels.json''),
      emit (Wget ''https://cleanlab-public.s3.amazonaws.com/ObjectDetectionBenchmarking/tutorial_obj/labels.pkl'')]"

definition cell_register :: "('img, 'a) world \<Rightarrow> ('img, 'a) world" where
  "cell_register = run_all
     [emit (RegisterCocoInstances ''my_dataset_train'' ''instances_train2017_5labels.json'' TRAIN_PATH),
      emit (RegisterCocoInstances ''my_dataset_val'' ''instances_val2017_5labels.json'' VAL_PATH)]"

definition cell_config :: "('img, 'a) framework \<Rightarrow> ('img, 'a) world \<Rightarrow> ('img, 'a) world" where
  "cell_config fw = run_all
     [\<lambda>w. emit GetCfg (w\<lparr>cfg := get_cfg fw\<rparr>),
      \<lambda>w. let f = get_config_file fw zoo_model
           in emit (MergeFromFile f) (w\<lparr>cfg := AList.merge (cfg w) (yaml_file fw f)\<rparr>),
      set_cfg ''DATASETS.TRAIN'' (CTuple [''my_dataset_train'']),
      set_cfg ''DATASETS.TEST'' (CTuple [''my_dataset_val'']),
      set_cfg ''DATALOADER.NUM_WORKERS'' (CInt 2),
      set_cfg ''MODEL.WEIGHTS'' (CStr (get_checkpoint_url fw zoo_model)),
      set_cfg ''SOLVER.IMS_PER_BATCH'' (CInt 2),
      set_cfg ''SOLVER.BASE_LR'' (CFloat 0.00025),
      set_cfg ''SOLVER.MAX_ITER'' (CInt 30000),
      set_cfg ''SOLVER.STEPS'' (CList []),
      set_cfg ''MODEL.ROI_HEADS.BATCH_SIZE_PER_IMAGE'' (CInt 128),
      set_cfg ''MODEL.ROI_HEADS.NUM_CLASSES'' (CInt 5),
      \<lambda>w. case cfg_str (cfg w) ''OUTPUT_DIR'' of
             Inl e \<Rightarrow> raise e w
           | Inr d \<Rightarrow> emit (MakeDirs d) w]"

definition cell_train :: "('img, 'a) world \<Rightarrow> ('img, 'a) world" where
  "cell_train = run_all
     [\<lambda>w. emit (DefaultTrainer (cfg w)) w,
      emit (ResumeOrLoad False),
      emit Train]"

definition cell_predictor :: "('img, 'a) world \<Rightarrow> ('img, 'a) world" where
  "cell_predictor = run_all
     [emit (COCOEvaluator ''my_dataset_val'' ''../output''),
      \<lambda>w. emit (BuildDetectionTestLoader (cfg w) ''my_dataset_val'') w,
      \<lambda>w. case cfg_str (cfg w) ''OUTPUT_DIR'' of
             Inl e \<Rightarrow> raise e w
           | Inr d \<Rightarrow> set_cfg ''MODEL.WEIGHTS'' (CStr (path_join d ''model_final.pth'')) w,
      set_cfg ''MODEL.ROI_HEADS.SCORE_THRESH_TEST'' (CFloat 0.7),
      \<lambda>w. emit (DefaultPredictor (cfg w)) (w\<lparr>predictor := Some (cfg w)\<rparr>)]"

text \<open>
  The body of \<^verbatim>\<open>for i in dataset\<close>:
  \<^verbatim>\<open>
    im_name = os.path.join(VAL_PATH, i['seg_map'].replace(".png",'.jpg'))
    im = cv2.imread(im_name)
    outputs = predictor(im)
    results.append(format_detectron2_predictions(outputs["instances"].to("cpu"),
                                                 cfg.MODEL.ROI_HEADS.NUM_CLASSES))
  \<close>
\<close>

definition inference_step ::
  "('img, 'a) framework \<Rightarrow> image_info \<Rightarrow> ('img, 'a) world \<Rightarrow> ('img, 'a) world" where
  "inference_step fw i w =
     (let im_name = path_join VAL_PATH (replace (seg_map i) ''.png'' ''.jpg'');
          w1 = emit (ImRead im_name) w;
          im = imread fw im_name
      in case predictor w1 of
           None \<Rightarrow> raise NameError w1
         | Some pc \<Rightarrow>
             (let w2 = emit (Predictor im) w1;
                  ins = run_predictor fw pc im
              in case cfg_int (cfg w2) ''MODEL.ROI_HEADS.NUM_CLASSES'' of
                   Inl e \<Rightarrow> raise e w2
                 | Inr num_classes \<Rightarrow>
                     (let w3 = emit (FormatPredictions ins num_classes) w2
                      in case format_detectron2_predictions ins num_classes of
                           Inl e \<Rightarrow> raise e w3
                         | Inr arrs \<Rightarrow> w3\<lparr>results := results w3 @ [arrs]\<rparr>)))"

fun inference_loop ::
  "('img, 'a) framework \<Rightarrow> image_info list \<Rightarrow> ('img, 'a) world \<Rightarrow> ('img, 'a) world" where
  "inference_loop fw [] w = w"
| "inference_loop fw (i # rest) w =
     (let w' = inference_step fw i w
      in if raised w' = None then inference_loop fw rest w' else w')"

text \<open>
  The last cell:
  \<^verbatim>\<open>
    labels = pickle.load(open("labels.pkl",'rb'))
    results = []
    for i in dataset:
        ...
    pickle.dump(results,open("predictions.pkl",'wb'))
  \<close>
  The \<^verbatim>\<open>for\<close> statement first reads the name \<^verbatim>\<open>dataset\<close>.
\<close>

definition cell_inference ::
  "('img, 'a) framework \<Rightarrow> ('img, 'a) world \<Rightarrow> ('img, 'a) world" where
  "cell_inference fw = run_all
     [emit (PickleLoad ''labels.pkl''),
      \<lambda>w. w\<lparr>results := []\<rparr>,
      \<lambda>w. case dataset w of
             None \<Rightarrow> raise NameError w
           | Some ds \<Rightarrow> inference_loop fw ds w,
      \<lambda>w. emit (PickleDump ''predictions.pkl'' (results w)) w]"

text \<open>The notebook, run from the top in a fresh kernel.\<close>

definition notebook :: "('img, 'a) framework \<Rightarrow> ('img, 'a) world" where
  "notebook fw = run_all
     [cell_download, cell_register, cell_config fw, cell_train, cell_predictor,
      cell_inference fw] init_world"

subsection \<open>Vocabulary for the pipeline\<close>

text \<open>The six steps of the pipeline and the event that performs each.\<close>

datatype pipeline_step =
    LoadConfiguration
  | TrainModel
  | LoadTrainedWeights
  | PredictImage
  | ReshapePrediction
  | PersistResults

fun step_of :: "('img, 'a) event \<Rightarrow> pipeline_step option" where
  "step_of (MergeFromFile f) = Some LoadConfiguration"
| "step_of Train = Some TrainModel"
| "step_of (DefaultPredictor c) = Some LoadTrainedWeights"
| "step_of (Predictor im) = Some PredictImage"
| "step_of (FormatPredictions ins n) = Some ReshapePrediction"
| "step_of (PickleDump f r) = Some PersistResults"
| "step_of _ = None"

definition steps :: "('img, 'a) event list \<Rightarrow> pipeline_step list" where
  "steps t = List.map_filter step_of t"

text \<open>The order that the pipeline is described to follow on \<open>n\<close> images.\<close>

definition pipeline_order :: "nat \<Rightarrow> pipeline_step list" where
  "pipeline_order n =
     [LoadConfiguration, TrainModel, LoadTrainedWeights] @
     concat (replicate n [PredictImage, ReshapePrediction]) @ [PersistResults]"

text \<open>
  The configuration after \<^verbatim>\<open>get_cfg()\<close> and \<^verbatim>\<open>merge_from_file\<close>, before the notebook
  assigns any field. \<^verbatim>\<open>cfg.OUTPUT_DIR\<close> is read from it: the notebook never assigns it.
\<close>

definition merged_cfg :: "('img, 'a) framework \<Rightarrow> cfg_node" where
  "merged_cfg fw = AList.merge (get_cfg fw) (yaml_file fw (get_config_file fw zoo_model))"

text \<open>The run up to and including the cell that builds the predictor.\<close>

definition run_setup :: "('img, 'a) framework \<Rightarrow> ('img, 'a) world" where
  "run_setup fw = run_all [cell_download, cell_register, cell_config fw, cell_train, cell_predictor] init_world"

text \<open>The configuration after the configuration cell, and the one after the predictor cell.\<close>

definition training_cfg :: "('img, 'a) framework \<Rightarrow> cfg_node" where
  "training_cfg fw = cfg (cell_config fw (init_world :: ('img, 'a) world))"

definition inference_cfg :: "('img, 'a) framework \<Rightarrow> cfg_node" where
  "inference_cfg fw = cfg (run_setup fw)"

text \<open>The events that the last cell can append.\<close>

fun inference_event :: "('img, 'a) event \<Rightarrow> bool" where
  "inference_event (PickleLoad f) = True"
| "inference_event (ImRead f) = True"
| "inference_event (Predictor im) = True"
| "inference_event (FormatPredictions ins n) = True"
| "inference_event (PickleDump f r) = True"
| "inference_event _ = False"

text \<open>The datasets registered and the configuration fields assigned along a trace.\<close>

definition registrations :: "('img, 'a) event list \<Rightarrow> (string \<times> string \<times> string) list" where
  "registrations t =
     List.map_filter (\<lambda>e. case e of RegisterCocoInstances n j r \<Rightarrow> Some (n, j, r) | _ \<Rightarrow> None) t"

definition assigned_keys :: "('img, 'a) event list \<Rightarrow> string list" where
  "assigned_keys t = List.map_filter (\<lambda>e. case e of SetCfg k v \<Rightarrow> Some k | _ \<Rightarrow> None) t"

text \<open>
  Cutting a trace at a call: \<^verbatim>\<open>DefaultTrainer(cfg)\<close>, \<^verbatim>\<open>merge_from_file\<close>,
  \<^verbatim>\<open>trainer.train()\<close> and \<^verbatim>\<open>DefaultPredictor(cfg)\<close>.
\<close>

fun starts_training :: "('img, 'a) event \<Rightarrow> bool" where
  "starts_training (DefaultTrainer c) = True"
| "starts_training _ = False"

fun is_merge :: "('img, 'a) event \<Rightarrow> bool" where
  "is_merge (MergeFromFile f) = True"
| "is_merge _ = False"

fun is_train :: "('img, 'a) event \<Rightarrow> bool" where
  "is_train Train = True"
| "is_train _ = False"

fun builds_predictor :: "('img, 'a) event \<Rightarrow> bool" where
  "builds_predictor (DefaultPredictor c) = True"
| "builds_predictor _ = False"

definition before_training :: "('img, 'a) event list \<Rightarrow> ('img, 'a) event list" where
  "before_training t = takeWhile (\<lambda>e. \<not> starts_training e) t"




subsection \<open>Sample inputs\<close>

text \<open>
  Three detections over three classes, the arrays the function returns for them, and a
  framework; the theorems below are exercised on them.
\<close>

definition sample_instances :: "real instances" where
  "sample_instances =
     \<lparr>pred_boxes = [(10, 20, 30, 40), (50, 60, 70, 80), (15, 25, 35, 45)],
      pred_classes = [1, 0, 1],
      scores = [0.9, 0.8, 0.75]\<rparr>"

definition sample_arrays :: "real ndarray list" where
  "sample_arrays =
     [\<lparr>dtype = Float32, shape = [1, 5], data = [50, 60, 70, 80, 0.8]\<rparr>,
      \<lparr>dtype = Float32, shape = [2, 5],
       data = [10, 20, 30, 40, 0.9, 15, 25, 35, 45, 0.75]\<rparr>,
      \<lparr>dtype = Float32, shape = [0, 3], data = []\<rparr>]"

definition sample_framework :: "(string, real) framework" where
  "sample_framework =
     \<lparr>get_cfg = [(''OUTPUT_DIR'', CStr ''./output'')],
      get_config_file = (\<lambda>n. ''configs/'' @ n),
      yaml_file = (\<lambda>f. [(''MODEL.ROI_HEADS.NUM_CLASSES'', CInt 80)]),
      get_checkpoint_url = (\<lambda>n. ''https://dl.fbaipublicfiles.com/detectron2/'' @ n),
      imread = (\<lambda>f. f),
      run_predictor = (\<lambda>c im.
        \<lparr>pred_boxes = [(10, 20, 30, 40), (50, 60, 70, 80)], pred_classes = [3, 0],
         scores = [0.9, 0.8]\<rparr>)\<rparr>"

section \<open>Properties of the reformatting function\<close>

subsection \<open>The two loops\<close>

lemma length_detection_row: "length (detection_row ins i) = 5"
  by (cases "pred_boxes ins ! i") (simp add: detection_row_def)

lemma list_index_bound: "list_index n i = Inr c \<Longrightarrow> c < n"
  by (auto simp: list_index_def split: if_splits)

lemma group_loop_ok:
  assumes "\<forall>i\<in>set is. i < length (pred_classes ins) \<and> i < length (scores ins) \<and>
             i < length (pred_boxes ins) \<and> (\<exists>c. list_index (length res) (pred_classes ins ! i) = Inr c)"
  shows "group_loop ins is res =
           Inr (map (\<lambda>c. res ! c @ map (detection_row ins)
                  (filter (\<lambda>i. list_index (length res) (pred_classes ins ! i) = Inr c) is))
                [0..<length res])"
  using assms
proof (induction "is" arbitrary: res)
  case Nil
  then show ?case by (simp add: map_nth)
next
  case (Cons i rest)
  from Cons.prems obtain c0 where
    i: "i < length (pred_classes ins)" "i < length (scores ins)" "i < length (pred_boxes ins)"
    and c0: "list_index (length res) (pred_classes ins ! i) = Inr c0"
    by auto
  have c0n: "c0 < length res" using c0 by (rule list_index_bound)
  let ?res1 = "res[c0 := res ! c0 @ [detection_row ins i]]"
  have rest: "\<forall>j\<in>set rest. j < length (pred_classes ins) \<and> j < length (scores ins) \<and>
             j < length (pred_boxes ins) \<and> (\<exists>c. list_index (length ?res1) (pred_classes ins ! j) = Inr c)"
    using Cons.prems by simp
  have step: "group_loop ins (i # rest) res = group_loop ins rest ?res1"
    using i c0 by (simp add: tensor_get_def detection_row_def)
  show ?case
    unfolding step Cons.IH [OF rest]
    using c0 c0n by (auto simp: nth_list_update)
qed

lemma group_loop_success:
  "group_loop ins is res = Inr res' \<Longrightarrow>
     \<forall>i\<in>set is. i < length (pred_classes ins) \<and> i < length (scores ins) \<and>
             i < length (pred_boxes ins) \<and> (\<exists>c. list_index (length res) (pred_classes ins ! i) = Inr c)"
proof (induction "is" arbitrary: res)
  case Nil
  then show ?case by simp
next
  case (Cons i rest)
  then show ?case
    by (fastforce simp: tensor_get_def split: sum.splits if_splits)
qed

lemma np_array_rows:
  "rows \<noteq> [] \<Longrightarrow> \<forall>r\<in>set rows. length r = 5 \<Longrightarrow>
     np_array rows dt = Inr \<lparr>dtype = dt, shape = [length rows, 5], data = concat rows\<rparr>"
  by (cases rows) (auto simp: np_array_def list_all_iff)

lemma reshape_empty:
  "0 \<le> n \<Longrightarrow> reshape \<lparr>dtype = dt, shape = [0], data = []\<rparr> [0, n] =
     Inr \<lparr>dtype = dt, shape = [0, nat n], data = []\<rparr>"
  by (simp add: reshape_def)

lemma array_loop_ok:
  assumes "\<forall>rows\<in>set res. \<forall>r\<in>set rows. length r = 5"
    and "res \<noteq> [] \<longrightarrow> 0 \<le> n"
  shows "array_loop n res res2 = Inr (res2 @ map (class_array n) res)"
  using assms
proof (induction res arbitrary: res2)
  case Nil
  then show ?case by simp
next
  case (Cons rows rest)
  have n: "0 \<le> n" using Cons.prems by simp
  have q: "(if length rows = 0
            then (case np_array rows Float32 of Inl e \<Rightarrow> Inl e | Inr a \<Rightarrow> reshape a [0, n])
            else np_array rows Float32) = Inr (class_array n rows)"
  proof (cases "rows = []")
    case True
    then show ?thesis using n by (simp add: np_array_def reshape_empty class_array_def)
  next
    case False
    then show ?thesis using Cons.prems by (simp add: np_array_rows class_array_def)
  qed
  have rest: "\<forall>rows\<in>set rest. \<forall>r\<in>set rows. length r = 5" "rest \<noteq> [] \<longrightarrow> 0 \<le> n"
    using Cons.prems n by simp_all
  show ?case
    by (simp only: array_loop.simps q sum.case Cons.IH [OF rest]) simp
qed

lemma dtype_np_array: "np_array rows dt = Inr a \<Longrightarrow> dtype a = dt"
  by (auto simp: np_array_def split: list.splits if_splits)

lemma dtype_reshape: "reshape a shp = Inr b \<Longrightarrow> dtype b = dtype a"
  by (auto simp: reshape_def Let_def split: if_splits)

lemma array_loop_dtype:
  "array_loop n res res2 = Inr arrs \<Longrightarrow> \<forall>a\<in>set res2. dtype a = Float32 \<Longrightarrow>
     \<forall>a\<in>set arrs. dtype a = Float32"
proof (induction res arbitrary: res2)
  case Nil
  then show ?case by simp
next
  case (Cons rows rest)
  from Cons.prems(1) obtain q where
    q: "(if length rows = 0
            then (case np_array rows Float32 of Inl e \<Rightarrow> Inl e | Inr a \<Rightarrow> reshape a [0, n])
            else np_array rows Float32) = Inr q"
    and loop: "array_loop n rest (res2 @ [q]) = Inr arrs"
    by (auto split: sum.splits)
  have "dtype q = Float32"
  proof (cases "length rows = 0")
    case True
    with q obtain a where "np_array rows Float32 = Inr a" "reshape a [0, n] = Inr q"
      by (auto split: sum.splits)
    then show ?thesis using dtype_np_array [of rows Float32 a] dtype_reshape [of a "[0, n]" q]
      by simp
  next
    case False
    with q show ?thesis using dtype_np_array [of rows Float32 q] by simp
  qed
  with Cons.prems(2) have "\<forall>a\<in>set (res2 @ [q]). dtype a = Float32" by simp
  with Cons.IH loop show ?case by blast
qed

lemma rows_of_concat:
  "\<forall>r\<in>set rows. length r = m \<Longrightarrow>
     map (\<lambda>k. take m (drop (k * m) (concat rows))) [0..<length rows] = rows"
proof (induction rows)
  case Nil
  then show ?case by simp
next
  case (Cons r rs)
  have "map (\<lambda>k. take m (drop (k * m) (concat (r # rs)))) [0..<length (r # rs)] =
        take m (concat (r # rs)) # map (\<lambda>k. take m (drop (Suc k * m) (concat (r # rs)))) [0..<length rs]"
    by (simp add: upt_conv_Cons map_Suc_upt [symmetric] del: upt_Suc)
  also have "\<dots> = r # map (\<lambda>k. take m (drop (k * m) (concat rs))) [0..<length rs]"
    using Cons.prems by simp
  finally show ?case using Cons by simp
qed

lemma rows_of_class_array:
  "\<forall>r\<in>set rows. length r = 5 \<Longrightarrow> rows_of (class_array n rows) = rows"
  using rows_of_concat [of rows 5]
  by (simp add: rows_of_def class_array_def nrows_def ncols_def)

lemma nrows_class_array: "nrows (class_array n rows) = length rows"
  by (simp add: class_array_def nrows_def)

lemma format_success:
  assumes "format_detectron2_predictions ins n = Inr arrs"
  shows "arrs = map (\<lambda>c. class_array n (map (detection_row ins) (detections_at ins (nat n) c)))
                  [0..<nat n]"
proof -
  let ?N = "length (pred_classes ins)"
  let ?res = "replicate (nat n) ([] :: 'a list list)"
  from assms obtain res' where
    g: "group_loop ins [0..<?N] ?res = Inr res'" and a: "array_loop n res' [] = Inr arrs"
    by (auto simp: format_detectron2_predictions_def split: sum.splits)
  have res': "res' = map (\<lambda>c. map (detection_row ins) (detections_at ins (nat n) c)) [0..<nat n]"
    using group_loop_ok [OF group_loop_success [OF g]] g
    by (simp add: detections_at_def num_detections_def)
  have len: "\<forall>rows\<in>set res'. \<forall>r\<in>set rows. length r = 5"
    unfolding res' by (auto simp: length_detection_row)
  have nn: "res' \<noteq> [] \<longrightarrow> 0 \<le> n" unfolding res' by auto
  show ?thesis
    using array_loop_ok [OF len nn, of "[]"] a by (simp add: res' comp_def)
qed

lemma format_total:
  assumes "wf_instances ins" and "classes_in_range ins n"
  shows "\<exists>arrs. format_detectron2_predictions ins n = Inr arrs"
proof -
  let ?N = "length (pred_classes ins)"
  let ?res = "replicate (nat n) ([] :: 'a list list)"
  have pre: "\<forall>i\<in>set [0..<?N]. i < length (pred_classes ins) \<and> i < length (scores ins) \<and>
             i < length (pred_boxes ins) \<and>
             (\<exists>c. list_index (length ?res) (pred_classes ins ! i) = Inr c)"
  proof
    fix i assume "i \<in> set [0..<?N]"
    then have i: "i < ?N" by simp
    then have "0 \<le> pred_classes ins ! i \<and> pred_classes ins ! i < n"
      using assms(2) by (simp add: classes_in_range_def list_all_length)
    then have "list_index (length ?res) (pred_classes ins ! i) = Inr (nat (pred_classes ins ! i))"
      by (simp add: list_index_def)
    then show "i < length (pred_classes ins) \<and> i < length (scores ins) \<and>
             i < length (pred_boxes ins) \<and>
             (\<exists>c. list_index (length ?res) (pred_classes ins ! i) = Inr c)"
      using i assms(1) by (simp add: wf_instances_def)
  qed
  let ?res' = "map (\<lambda>c. ?res ! c @ map (detection_row ins)
                  (filter (\<lambda>i. list_index (length ?res) (pred_classes ins ! i) = Inr c) [0..<?N]))
                [0..<length ?res]"
  have g: "group_loop ins [0..<?N] ?res = Inr ?res'"
    by (rule group_loop_ok [OF pre])
  have len: "\<forall>rows\<in>set ?res'. \<forall>r\<in>set rows. length r = 5"
    by (auto simp: length_detection_row)
  have nn: "?res' \<noteq> [] \<longrightarrow> 0 \<le> n" by auto
  show ?thesis
    unfolding format_detectron2_predictions_def Let_def g
    using array_loop_ok [OF len nn, of "[]"] by simp
qed

lemma detections_at_in_range:
  assumes "classes_in_range ins n" and "c < nat n"
  shows "detections_at ins (nat n) c = detections_of_class ins c"
  unfolding detections_at_def detections_of_class_def
proof (rule filter_cong [OF refl])
  fix i assume "i \<in> set [0..<num_detections ins]"
  then have "0 \<le> pred_classes ins ! i \<and> pred_classes ins ! i < n"
    using assms(1) by (simp add: classes_in_range_def list_all_length num_detections_def)
  then show "(list_index (nat n) (pred_classes ins ! i) = Inr c) = (pred_classes ins ! i = int c)"
    by (auto simp: list_index_def)
qed

lemma format_in_range:
  assumes "wf_instances ins" and "classes_in_range ins n"
  shows "format_detectron2_predictions ins n =
           Inr (map (\<lambda>c. class_array n (map (detection_row ins) (detections_of_class ins c)))
                  [0..<nat n])"
proof -
  from format_total [OF assms] obtain arrs where
    a: "format_detectron2_predictions ins n = Inr arrs" by blast
  have "arrs = map (\<lambda>c. class_array n (map (detection_row ins) (detections_at ins (nat n) c)))
                  [0..<nat n]"
    by (rule format_success [OF a])
  also have "\<dots> = map (\<lambda>c. class_array n (map (detection_row ins) (detections_of_class ins c)))
                  [0..<nat n]"
    by (rule map_cong [OF refl]) (simp add: detections_at_in_range [OF assms(2)])
  finally show ?thesis using a by simp
qed

lemma sum_list_indicator:
  "sum_list (map (\<lambda>c. if k = c then 1 else 0) [0..<m]) = (if k < m then 1 else (0::nat))"
  by (induction m) auto

lemma class_counts_partition:
  assumes "\<forall>x\<in>set xs. 0 \<le> f x \<and> f x < n"
  shows "sum_list (map (\<lambda>c. length (filter (\<lambda>i. f i = int c) xs)) [0..<nat n]) = length xs"
  using assms
proof (induction xs)
  case Nil
  then show ?case by simp
next
  case (Cons x xs)
  have fx: "0 \<le> f x" "f x < n" using Cons.prems by simp_all
  have "sum_list (map (\<lambda>c. length (filter (\<lambda>i. f i = int c) (x # xs))) [0..<nat n]) =
        sum_list (map (\<lambda>c. (if nat (f x) = c then 1 else 0) +
                              length (filter (\<lambda>i. f i = int c) xs)) [0..<nat n])"
    using fx by (intro arg_cong [where f = sum_list] map_cong refl) auto
  also have "\<dots> = sum_list (map (\<lambda>c. if nat (f x) = c then 1 else 0) [0..<nat n]) +
                   sum_list (map (\<lambda>c. length (filter (\<lambda>i. f i = int c) xs)) [0..<nat n])"
    by (simp add: sum_list_addf)
  also have "\<dots> = 1 + length xs"
    using fx Cons by (simp add: sum_list_indicator)
  finally show ?case by simp
qed

lemma sum_class_sizes:
  assumes "classes_in_range ins n"
  shows "sum_list (map (\<lambda>c. length (detections_of_class ins c)) [0..<nat n]) = num_detections ins"
proof -
  have "\<forall>i\<in>set [0..<num_detections ins]. 0 \<le> pred_classes ins ! i \<and> pred_classes ins ! i < n"
    using assms by (simp add: classes_in_range_def list_all_length num_detections_def)
  from class_counts_partition [OF this] show ?thesis
    by (simp add: detections_of_class_def)
qed

lemma no_detection_of_class:
  "detections_of_class ins c = [] \<longleftrightarrow> int c \<notin> set (pred_classes ins)"
  by (auto simp: detections_of_class_def num_detections_def filter_empty_conv in_set_conv_nth)

subsection \<open>The sample detections\<close>

lemma sample_wf: "wf_instances sample_instances"
  by (simp add: wf_instances_def sample_instances_def)

lemma sample_in_range: "classes_in_range sample_instances 3"
  by (simp add: classes_in_range_def sample_instances_def)

lemma sample_format: "format_detectron2_predictions sample_instances 3 = Inr sample_arrays"
  by code_simp

subsection \<open>Columns of the returned arrays\<close>

text \<open>
  C1. The claim: every array in the returned list has exactly 5 columns, also the arrays of
  classes with no detections. The code gives an empty class the shape
  \<open>(0, num_classes)\<close>: with one detection of class 0 and \<open>num_classes = 3\<close> the three
  arrays have the shapes \<open>(1, 5)\<close>, \<open>(0, 3)\<close> and \<open>(0, 3)\<close>.
\<close>

theorem format_empty_class_columns:
  "format_detectron2_predictions
     \<lparr>pred_boxes = [(10, 20, 30, 40)], pred_classes = [0], scores = [0.9 :: real]\<rparr> 3 =
   Inr [\<lparr>dtype = Float32, shape = [1, 5], data = [10, 20, 30, 40, 0.9]\<rparr>,
        \<lparr>dtype = Float32, shape = [0, 3], data = []\<rparr>,
        \<lparr>dtype = Float32, shape = [0, 3], data = []\<rparr>]"
  by code_simp

subsection \<open>Grouping by class\<close>

text \<open>
  A class index outside \<open>[-num_classes, num_classes)\<close> makes \<^verbatim>\<open>res[pred_class]\<close> raise:
  no list is returned and the detection contributes no row.
\<close>

theorem format_class_out_of_range_counterexample:
  "wf_instances \<lparr>pred_boxes = [(10, 20, 30, 40)], pred_classes = [5], scores = [0.9 :: real]\<rparr> \<and>
   format_detectron2_predictions
     \<lparr>pred_boxes = [(10, 20, 30, 40)], pred_classes = [5], scores = [0.9 :: real]\<rparr> 5 =
   Inl IndexError"
  by code_simp

text \<open>
  C2, amended. For every instance collection with one box, one class and one score per
  detection and with all classes in \<open>[0, num_classes)\<close>, the function returns
  \<open>num_classes\<close> arrays, and the rows of the array at index \<open>c\<close> are, as a multiset,
  the rows of the detections whose class is \<open>c\<close>: each detection contributes exactly one
  row, to the array at the index of its class, made of its four coordinates followed by
  its score.
\<close>

theorem format_groups_by_class:
  assumes "wf_instances ins" and "classes_in_range ins num_classes"
  shows "\<exists>arrs. format_detectron2_predictions ins num_classes = Inr arrs \<and>
           length arrs = nat num_classes \<and>
           (\<forall>c<nat num_classes.
              mset (rows_of (arrs ! c)) =
              image_mset (detection_row ins) (mset (detections_of_class ins c)))"
  by (simp add: format_in_range [OF assms] rows_of_class_array length_detection_row)

theorem format_groups_by_class_witness:
  "wf_instances sample_instances \<and> classes_in_range sample_instances 3 \<and> (1 :: nat) < nat 3 \<and>
   (\<exists>arrs. format_detectron2_predictions sample_instances 3 = Inr arrs \<and>
      length arrs = nat 3 \<and>
      mset (rows_of (arrs ! 1)) =
      image_mset (detection_row sample_instances) (mset (detections_of_class sample_instances 1))) \<and>
   map (detection_row sample_instances) (detections_of_class sample_instances 1) =
     [[10, 20, 30, 40, 0.9], [15, 25, 35, 45, 0.75]]"
proof -
  from format_groups_by_class [OF sample_wf sample_in_range] obtain arrs where
    a: "format_detectron2_predictions sample_instances 3 = Inr arrs" "length arrs = nat 3"
      "\<forall>c<nat 3. mset (rows_of (arrs ! c)) =
         image_mset (detection_row sample_instances) (mset (detections_of_class sample_instances c))"
    by (elim exE conjE) (rule that)
  have lt: "(1 :: nat) < nat 3" by simp
  from a(3) [rule_format, OF lt] a(1,2) have
    "\<exists>arrs. format_detectron2_predictions sample_instances 3 = Inr arrs \<and>
      length arrs = nat 3 \<and>
      mset (rows_of (arrs ! 1)) =
      image_mset (detection_row sample_instances) (mset (detections_of_class sample_instances 1))"
    by (intro exI [of _ arrs] conjI)
  moreover have "map (detection_row sample_instances) (detections_of_class sample_instances 1) =
     [[10, 20, 30, 40, 0.9], [15, 25, 35, 45, 0.75]]"
    by code_simp
  ultimately show ?thesis using sample_wf sample_in_range lt by (intro conjI)
qed

subsection \<open>Length of the result and empty classes\<close>

text \<open>
  A negative class is a valid Python index: class \<open>-1\<close> with \<open>num_classes = 2\<close> fills the
  array at index 1, although no detection has class 1. With \<open>num_classes = 0\<close> and one
  detection the function raises instead of returning an empty list.
\<close>

theorem format_negative_class_counterexample:
  "format_detectron2_predictions
     \<lparr>pred_boxes = [(10, 20, 30, 40)], pred_classes = [- 1], scores = [0.9 :: real]\<rparr> 2 =
   Inr [\<lparr>dtype = Float32, shape = [0, 2], data = []\<rparr>,
        \<lparr>dtype = Float32, shape = [1, 5], data = [10, 20, 30, 40, 0.9]\<rparr>] \<and>
   nrows \<lparr>dtype = Float32, shape = [1, 5], data = [10, 20, 30, 40, 0.9 :: real]\<rparr> = 1 \<and>
   (1 :: int) \<notin> set [- 1] \<and>
   format_detectron2_predictions
     \<lparr>pred_boxes = [(10, 20, 30, 40)], pred_classes = [0], scores = [0.9 :: real]\<rparr> 0 =
   Inl IndexError"
  by code_simp

text \<open>
  C3, amended. For every \<open>num_classes \<ge> 0\<close> and every instance collection with one box,
  one class and one score per detection and with all classes in \<open>[0, num_classes)\<close>, the
  function returns a list of exactly \<open>num_classes\<close> arrays, and the array at index \<open>c\<close>
  has zero rows if and only if no detection has class \<open>c\<close>.
\<close>

theorem format_empty_iff_no_detection:
  assumes "0 \<le> num_classes" and "wf_instances ins" and "classes_in_range ins num_classes"
  shows "\<exists>arrs. format_detectron2_predictions ins num_classes = Inr arrs \<and>
           int (length arrs) = num_classes \<and>
           (\<forall>c<length arrs. nrows (arrs ! c) = 0 \<longleftrightarrow> int c \<notin> set (pred_classes ins))"
  using assms(1)
  by (simp add: format_in_range [OF assms(2,3)] nrows_class_array no_detection_of_class)

theorem format_empty_iff_no_detection_witness:
  "(0 :: int) \<le> 3 \<and> wf_instances sample_instances \<and> classes_in_range sample_instances 3 \<and>
   format_detectron2_predictions sample_instances 3 = Inr sample_arrays \<and>
   int (length sample_arrays) = 3 \<and> 2 < length sample_arrays \<and>
   (nrows (sample_arrays ! 2) = 0 \<longleftrightarrow> int 2 \<notin> set (pred_classes sample_instances)) \<and>
   nrows (sample_arrays ! 2) = 0"
proof -
  have z: "(0 :: int) \<le> 3" by simp
  from format_empty_iff_no_detection [OF z sample_wf sample_in_range] obtain arrs where
    a: "format_detectron2_predictions sample_instances 3 = Inr arrs" "int (length arrs) = 3"
      "\<forall>c<length arrs. nrows (arrs ! c) = 0 \<longleftrightarrow> int c \<notin> set (pred_classes sample_instances)"
    by (elim exE conjE) (rule that)
  from a(1) sample_format have eq: "arrs = sample_arrays" by simp
  have lt: "2 < length sample_arrays" by (simp add: sample_arrays_def)
  have n: "nrows (sample_arrays ! 2) = 0" by code_simp
  from a(3) [unfolded eq, rule_format, OF lt] a(2) [unfolded eq] sample_format z sample_wf
    sample_in_range lt n
  show ?thesis by (intro conjI)
qed

subsection \<open>No detection dropped or duplicated\<close>

text \<open>
  C4. For every input with \<open>N\<close> detections whose classes all lie in \<open>[0, num_classes)\<close>,
  the numbers of rows of the returned arrays add up to \<open>N\<close>.
\<close>

theorem format_row_total:
  assumes "wf_instances ins" and "classes_in_range ins num_classes"
  shows "\<exists>arrs. format_detectron2_predictions ins num_classes = Inr arrs \<and>
           sum_list (map nrows arrs) = num_detections ins"
  using sum_class_sizes [OF assms(2)]
  by (simp add: format_in_range [OF assms] comp_def nrows_class_array)

theorem format_row_total_witness:
  "wf_instances sample_instances \<and> classes_in_range sample_instances 3 \<and>
   (\<exists>arrs. format_detectron2_predictions sample_instances 3 = Inr arrs \<and>
      sum_list (map nrows arrs) = num_detections sample_instances) \<and>
   num_detections sample_instances = 3"
proof -
  have "num_detections sample_instances = 3"
    by (simp add: num_detections_def sample_instances_def)
  with format_row_total [OF sample_wf sample_in_range] sample_wf sample_in_range
  show ?thesis by (intro conjI)
qed

subsection \<open>Totality\<close>

text \<open>
  C8. The function returns, without raising, on every input whose classes all lie in
  \<open>[0, num_classes)\<close>; an \<^verbatim>\<open>Instances\<close> object has one box, one class and one score per
  detection.
\<close>

theorem format_returns_in_range:
  assumes "wf_instances ins" and "classes_in_range ins num_classes"
  shows "\<exists>arrs. format_detectron2_predictions ins num_classes = Inr arrs"
  using assms by (rule format_total)

theorem format_returns_in_range_witness:
  "wf_instances sample_instances \<and> classes_in_range sample_instances 3 \<and>
   (\<exists>arrs. format_detectron2_predictions sample_instances 3 = Inr arrs)"
  using format_returns_in_range [OF sample_wf sample_in_range] sample_wf sample_in_range
  by (intro conjI)

subsection \<open>Order of the rows\<close>

text \<open>
  C9. Whenever the function returns, the rows of each returned array are the rows of the
  detections sent to that array, in the order in which these detections appear in the
  input.
\<close>

theorem format_order_stable:
  assumes "format_detectron2_predictions ins num_classes = Inr arrs" and "c < length arrs"
  shows "rows_of (arrs ! c) = map (detection_row ins) (detections_at ins (nat num_classes) c)"
  using assms(2) unfolding format_success [OF assms(1)]
  by (simp add: rows_of_class_array length_detection_row)

theorem format_order_stable_witness:
  "format_detectron2_predictions sample_instances 3 = Inr sample_arrays \<and>
   1 < length sample_arrays \<and>
   rows_of (sample_arrays ! 1) =
     map (detection_row sample_instances) (detections_at sample_instances (nat 3) 1) \<and>
   detections_at sample_instances (nat 3) 1 = [0, 2]"
proof -
  have lt: "1 < length sample_arrays" by (simp add: sample_arrays_def)
  have "detections_at sample_instances (nat 3) 1 = [0, 2]" by code_simp
  with format_order_stable [OF sample_format lt] sample_format lt
  show ?thesis by (intro conjI)
qed

subsection \<open>Element type\<close>

text \<open>
  C10. Every array in the returned list has dtype float32, the arrays of empty classes
  included.
\<close>

theorem format_dtype_float32:
  assumes "format_detectron2_predictions ins num_classes = Inr arrs"
  shows "\<forall>a\<in>set arrs. dtype a = Float32"
proof -
  from assms obtain res' where "array_loop num_classes res' [] = Inr arrs"
    by (auto simp: format_detectron2_predictions_def split: sum.splits)
  from array_loop_dtype [OF this] show ?thesis by simp
qed

theorem format_dtype_float32_witness:
  "format_detectron2_predictions sample_instances 3 = Inr sample_arrays \<and>
   sample_arrays ! 2 \<in> set sample_arrays \<and>
   nrows (sample_arrays ! 2) = 0 \<and>
   dtype (sample_arrays ! 2) = Float32 \<and>
   sample_arrays ! 1 \<in> set sample_arrays \<and>
   nrows (sample_arrays ! 1) = 2 \<and>
   dtype (sample_arrays ! 1) = Float32"
proof -
  have m: "sample_arrays ! 2 \<in> set sample_arrays" "sample_arrays ! 1 \<in> set sample_arrays"
    by (simp_all add: sample_arrays_def)
  have n: "nrows (sample_arrays ! 2) = 0" "nrows (sample_arrays ! 1) = 2"
    by (simp_all add: sample_arrays_def nrows_def)
  note all = format_dtype_float32 [OF sample_format]
  from all m(1) have d2: "dtype (sample_arrays ! 2) = Float32" by (rule bspec)
  from all m(2) have d1: "dtype (sample_arrays ! 1) = Float32" by (rule bspec)
  from sample_format m n d1 d2 show ?thesis by (intro conjI)
qed

section \<open>Properties of the notebook\<close>

subsection \<open>The cells\<close>

lemma cfg_str_update:
  "cfg_str (AList.update k v c) k' =
     (if k = k' then (case v of CStr s \<Rightarrow> Inr s | _ \<Rightarrow> Inl TypeError) else cfg_str c k')"
  by (simp add: cfg_str_def update_conv')

lemma cfg_int_update:
  "cfg_int (AList.update k v c) k' =
     (if k = k' then (case v of CInt n \<Rightarrow> Inr n | _ \<Rightarrow> Inl TypeError) else cfg_int c k')"
  by (simp add: cfg_int_def update_conv')

lemma emit_fields [simp]:
  "cfg (emit e w) = cfg w" "predictor (emit e w) = predictor w" "raised (emit e w) = raised w"
  "results (emit e w) = results w" "trace (emit e w) = trace w @ [e]"
  "dataset (emit e w) = dataset w"
  by (simp_all add: emit_def)

lemma raise_fields [simp]:
  "cfg (raise e w) = cfg w" "predictor (raise e w) = predictor w" "raised (raise e w) = Some e"
  "trace (raise e w) = trace w" "results (raise e w) = results w"
  "dataset (raise e w) = dataset w"
  by (simp_all add: raise_def)

lemma set_cfg_fields [simp]:
  "cfg (set_cfg k v w) = AList.update k v (cfg w)" "predictor (set_cfg k v w) = predictor w"
  "raised (set_cfg k v w) = raised w" "results (set_cfg k v w) = results w"
  "trace (set_cfg k v w) = trace w @ [SetCfg k v]" "dataset (set_cfg k v w) = dataset w"
  by (simp_all add: set_cfg_def)

lemma raised_init [simp]:
  "raised init_world = None" "trace init_world = []" "dataset init_world = None"
  by (simp_all add: init_world_def)

lemma cell_download_effect:
  assumes "raised w = None"
  shows "trace (cell_download w) = trace w @
     [Wget ''https://cleanlab-public.s3.amazonaws.com/ObjectDetectionBenchmarking/DATASET_annotations/instances_val2017_5labels.json'',
      Wget ''https://cleanlab-public.s3.amazonaws.com/ObjectDetectionBenchmarking/DATASET_annotations/instances_train2017_5labels.json'',
      Wget ''https://cleanlab-public.s3.amazonaws.com/ObjectDetectionBenchmarking/tutorial_obj/labels.pkl'']"
    and "raised (cell_download w) = None"
    and "predictor (cell_download w) = predictor w"
    and "dataset (cell_download w) = dataset w"
  using assms by (simp_all add: cell_download_def Let_def)

lemma cell_register_effect:
  assumes "raised w = None"
  shows "trace (cell_register w) = trace w @
     [RegisterCocoInstances ''my_dataset_train'' ''instances_train2017_5labels.json''
        ''../data/coco/train2017'',
      RegisterCocoInstances ''my_dataset_val'' ''instances_val2017_5labels.json''
        ''../data/coco/val2017'']"
    and "raised (cell_register w) = None"
    and "predictor (cell_register w) = predictor w"
    and "dataset (cell_register w) = dataset w"
  using assms
  by (simp_all add: cell_register_def Let_def TRAIN_PATH_def VAL_PATH_def IMAGE_PATH_def
      path_join_def)

lemma cell_config_trace:
  assumes "raised w = None"
  shows "trace (cell_config fw w) = trace w @
     [GetCfg, MergeFromFile (get_config_file fw zoo_model),
      SetCfg ''DATASETS.TRAIN'' (CTuple [''my_dataset_train'']),
      SetCfg ''DATASETS.TEST'' (CTuple [''my_dataset_val'']),
      SetCfg ''DATALOADER.NUM_WORKERS'' (CInt 2),
      SetCfg ''MODEL.WEIGHTS'' (CStr (get_checkpoint_url fw zoo_model)),
      SetCfg ''SOLVER.IMS_PER_BATCH'' (CInt 2),
      SetCfg ''SOLVER.BASE_LR'' (CFloat 0.00025),
      SetCfg ''SOLVER.MAX_ITER'' (CInt 30000),
      SetCfg ''SOLVER.STEPS'' (CList []),
      SetCfg ''MODEL.ROI_HEADS.BATCH_SIZE_PER_IMAGE'' (CInt 128),
      SetCfg ''MODEL.ROI_HEADS.NUM_CLASSES'' (CInt 5)] @
     (case cfg_str (merged_cfg fw) ''OUTPUT_DIR'' of Inl e \<Rightarrow> [] | Inr d \<Rightarrow> [MakeDirs d])"
  using assms
  by (cases "cfg_str (merged_cfg fw) ''OUTPUT_DIR''")
    (simp_all add: cell_config_def Let_def merged_cfg_def cfg_str_update)

lemma cell_config_raised:
  assumes "raised w = None"
  shows "raised (cell_config fw w) =
     (case cfg_str (merged_cfg fw) ''OUTPUT_DIR'' of Inl e \<Rightarrow> Some e | Inr d \<Rightarrow> None)"
  using assms
  by (cases "cfg_str (merged_cfg fw) ''OUTPUT_DIR''")
    (simp_all add: cell_config_def Let_def merged_cfg_def cfg_str_update)

lemma cell_config_predictor:
  assumes "raised w = None"
  shows "predictor (cell_config fw w) = predictor w"
  using assms
  by (cases "cfg_str (merged_cfg fw) ''OUTPUT_DIR''")
    (simp_all add: cell_config_def Let_def merged_cfg_def cfg_str_update)

lemma cell_config_dataset:
  assumes "raised w = None"
  shows "dataset (cell_config fw w) = dataset w"
  using assms
  by (cases "cfg_str (merged_cfg fw) ''OUTPUT_DIR''")
    (simp_all add: cell_config_def Let_def merged_cfg_def cfg_str_update)

lemma cell_config_output_dir:
  assumes "raised w = None"
  shows "cfg_str (cfg (cell_config fw w)) ''OUTPUT_DIR'' = cfg_str (merged_cfg fw) ''OUTPUT_DIR''"
  using assms
  by (cases "cfg_str (merged_cfg fw) ''OUTPUT_DIR''")
    (simp_all add: cell_config_def Let_def merged_cfg_def cfg_str_update)

lemma cell_config_num_classes:
  assumes "raised w = None"
  shows "cfg_int (cfg (cell_config fw w)) ''MODEL.ROI_HEADS.NUM_CLASSES'' = Inr 5"
  using assms
  by (cases "cfg_str (merged_cfg fw) ''OUTPUT_DIR''")
    (simp_all add: cell_config_def Let_def merged_cfg_def cfg_str_update cfg_int_update)

lemma cell_config_datasets:
  assumes "raised w = None"
  shows "map_of (cfg (cell_config fw w)) ''DATASETS.TRAIN'' = Some (CTuple [''my_dataset_train''])"
    and "map_of (cfg (cell_config fw w)) ''DATASETS.TEST'' = Some (CTuple [''my_dataset_val''])"
  using assms
  by (cases "cfg_str (merged_cfg fw) ''OUTPUT_DIR''";
      simp add: cell_config_def Let_def merged_cfg_def cfg_str_update update_conv')+

lemma cell_config_cfg:
  assumes "raised w = None"
  shows "cfg (cell_config fw w) = training_cfg fw"
  using assms unfolding training_cfg_def
  by (cases "cfg_str (merged_cfg fw) ''OUTPUT_DIR''")
    (simp_all add: cell_config_def Let_def merged_cfg_def cfg_str_update init_world_def)

lemma training_cfg_lookup:
  "cfg_str (training_cfg fw) ''OUTPUT_DIR'' = cfg_str (merged_cfg fw) ''OUTPUT_DIR''"
  "cfg_int (training_cfg fw) ''MODEL.ROI_HEADS.NUM_CLASSES'' = Inr 5"
  "map_of (training_cfg fw) ''DATASETS.TRAIN'' = Some (CTuple [''my_dataset_train''])"
  "map_of (training_cfg fw) ''DATASETS.TEST'' = Some (CTuple [''my_dataset_val''])"
  unfolding training_cfg_def
  by (simp_all add: cell_config_output_dir cell_config_num_classes cell_config_datasets)

lemma cell_train_effect:
  assumes "raised w = None"
  shows "trace (cell_train w) = trace w @ [DefaultTrainer (cfg w), ResumeOrLoad False, Train]"
    and "raised (cell_train w) = None"
    and "cfg (cell_train w) = cfg w"
    and "predictor (cell_train w) = predictor w"
    and "dataset (cell_train w) = dataset w"
  using assms by (simp_all add: cell_train_def Let_def)

lemma cell_predictor_effect:
  assumes "raised w = None" and "cfg_str (cfg w) ''OUTPUT_DIR'' = Inr d"
  shows "trace (cell_predictor w) = trace w @
     [COCOEvaluator ''my_dataset_val'' ''../output'',
      BuildDetectionTestLoader (cfg w) ''my_dataset_val'',
      SetCfg ''MODEL.WEIGHTS'' (CStr (path_join d ''model_final.pth'')),
      SetCfg ''MODEL.ROI_HEADS.SCORE_THRESH_TEST'' (CFloat 0.7),
      DefaultPredictor (cfg (cell_predictor w))]"
    and "raised (cell_predictor w) = None"
    and "cfg (cell_predictor w) =
      AList.update ''MODEL.ROI_HEADS.SCORE_THRESH_TEST'' (CFloat 0.7)
        (AList.update ''MODEL.WEIGHTS'' (CStr (path_join d ''model_final.pth'')) (cfg w))"
    and "predictor (cell_predictor w) = Some (cfg (cell_predictor w))"
    and "dataset (cell_predictor w) = dataset w"
  using assms by (simp_all add: cell_predictor_def Let_def)

lemmas setup_simps =
  cell_download_effect cell_register_effect cell_config_trace cell_config_raised
  cell_config_predictor cell_config_dataset cell_config_cfg training_cfg_lookup cell_train_effect

lemma run_setup_fail:
  assumes "cfg_str (merged_cfg fw) ''OUTPUT_DIR'' = Inl e"
  shows "run_setup fw = cell_config fw (cell_register (cell_download init_world))"
  using assms by (simp add: run_setup_def Let_def setup_simps)

lemma run_setup_ok:
  assumes "cfg_str (merged_cfg fw) ''OUTPUT_DIR'' = Inr d"
  shows "run_setup fw =
     cell_predictor (cell_train (cell_config fw (cell_register (cell_download init_world))))"
  using assms by (simp add: run_setup_def Let_def setup_simps)

lemma state_before_predictor:
  assumes "cfg_str (merged_cfg fw) ''OUTPUT_DIR'' = Inr d"
  defines "w \<equiv> cell_train (cell_config fw (cell_register (cell_download init_world)))"
  shows "raised w = None" and "cfg_str (cfg w) ''OUTPUT_DIR'' = Inr d"
    and "cfg w = training_cfg fw" and "dataset w = None"
    and "trace w =
     [Wget ''https://cleanlab-public.s3.amazonaws.com/ObjectDetectionBenchmarking/DATASET_annotations/instances_val2017_5labels.json'',
      Wget ''https://cleanlab-public.s3.amazonaws.com/ObjectDetectionBenchmarking/DATASET_annotations/instances_train2017_5labels.json'',
      Wget ''https://cleanlab-public.s3.amazonaws.com/ObjectDetectionBenchmarking/tutorial_obj/labels.pkl'',
      RegisterCocoInstances ''my_dataset_train'' ''instances_train2017_5labels.json''
        ''../data/coco/train2017'',
      RegisterCocoInstances ''my_dataset_val'' ''instances_val2017_5labels.json''
        ''../data/coco/val2017'',
      GetCfg, MergeFromFile (get_config_file fw zoo_model),
      SetCfg ''DATASETS.TRAIN'' (CTuple [''my_dataset_train'']),
      SetCfg ''DATASETS.TEST'' (CTuple [''my_dataset_val'']),
      SetCfg ''DATALOADER.NUM_WORKERS'' (CInt 2),
      SetCfg ''MODEL.WEIGHTS'' (CStr (get_checkpoint_url fw zoo_model)),
      SetCfg ''SOLVER.IMS_PER_BATCH'' (CInt 2),
      SetCfg ''SOLVER.BASE_LR'' (CFloat 0.00025),
      SetCfg ''SOLVER.MAX_ITER'' (CInt 30000),
      SetCfg ''SOLVER.STEPS'' (CList []),
      SetCfg ''MODEL.ROI_HEADS.BATCH_SIZE_PER_IMAGE'' (CInt 128),
      SetCfg ''MODEL.ROI_HEADS.NUM_CLASSES'' (CInt 5),
      MakeDirs d, DefaultTrainer (training_cfg fw), ResumeOrLoad False, Train]"
  using assms(1) unfolding w_def by (simp_all add: setup_simps init_world_def)

lemma run_setup_raised:
  "raised (run_setup fw) =
     (case cfg_str (merged_cfg fw) ''OUTPUT_DIR'' of Inl e \<Rightarrow> Some e | Inr d \<Rightarrow> None)"
proof (cases "cfg_str (merged_cfg fw) ''OUTPUT_DIR''")
  case (Inl e)
  then show ?thesis by (simp add: run_setup_fail setup_simps)
next
  case (Inr d)
  then show ?thesis
    using cell_predictor_effect(2) [OF state_before_predictor(1,2) [OF Inr]]
    by (simp add: run_setup_ok)
qed

lemma run_setup_trace:
  "trace (run_setup fw) =
     [Wget ''https://cleanlab-public.s3.amazonaws.com/ObjectDetectionBenchmarking/DATASET_annotations/instances_val2017_5labels.json'',
      Wget ''https://cleanlab-public.s3.amazonaws.com/ObjectDetectionBenchmarking/DATASET_annotations/instances_train2017_5labels.json'',
      Wget ''https://cleanlab-public.s3.amazonaws.com/ObjectDetectionBenchmarking/tutorial_obj/labels.pkl'',
      RegisterCocoInstances ''my_dataset_train'' ''instances_train2017_5labels.json''
        ''../data/coco/train2017'',
      RegisterCocoInstances ''my_dataset_val'' ''instances_val2017_5labels.json''
        ''../data/coco/val2017'',
      GetCfg, MergeFromFile (get_config_file fw zoo_model),
      SetCfg ''DATASETS.TRAIN'' (CTuple [''my_dataset_train'']),
      SetCfg ''DATASETS.TEST'' (CTuple [''my_dataset_val'']),
      SetCfg ''DATALOADER.NUM_WORKERS'' (CInt 2),
      SetCfg ''MODEL.WEIGHTS'' (CStr (get_checkpoint_url fw zoo_model)),
      SetCfg ''SOLVER.IMS_PER_BATCH'' (CInt 2),
      SetCfg ''SOLVER.BASE_LR'' (CFloat 0.00025),
      SetCfg ''SOLVER.MAX_ITER'' (CInt 30000),
      SetCfg ''SOLVER.STEPS'' (CList []),
      SetCfg ''MODEL.ROI_HEADS.BATCH_SIZE_PER_IMAGE'' (CInt 128),
      SetCfg ''MODEL.ROI_HEADS.NUM_CLASSES'' (CInt 5)] @
     (case cfg_str (merged_cfg fw) ''OUTPUT_DIR'' of
        Inl e \<Rightarrow> []
      | Inr d \<Rightarrow>
          [MakeDirs d, DefaultTrainer (training_cfg fw), ResumeOrLoad False, Train,
           COCOEvaluator ''my_dataset_val'' ''../output'',
           BuildDetectionTestLoader (training_cfg fw) ''my_dataset_val'',
           SetCfg ''MODEL.WEIGHTS'' (CStr (path_join d ''model_final.pth'')),
           SetCfg ''MODEL.ROI_HEADS.SCORE_THRESH_TEST'' (CFloat 0.7),
           DefaultPredictor (inference_cfg fw)])"
proof (cases "cfg_str (merged_cfg fw) ''OUTPUT_DIR''")
  case (Inl e)
  then show ?thesis by (simp add: run_setup_fail setup_simps)
next
  case (Inr d)
  show ?thesis
    unfolding inference_cfg_def run_setup_ok [OF Inr]
      cell_predictor_effect(1) [OF state_before_predictor(1,2) [OF Inr]]
    by (simp add: Inr state_before_predictor(3,5) [OF Inr])
qed

lemma run_setup_state:
  assumes "cfg_str (merged_cfg fw) ''OUTPUT_DIR'' = Inr d"
  shows "predictor (run_setup fw) = Some (inference_cfg fw)"
    and "cfg_int (cfg (run_setup fw)) ''MODEL.ROI_HEADS.NUM_CLASSES'' = Inr 5"
    and "map_of (inference_cfg fw) ''MODEL.WEIGHTS'' = Some (CStr (path_join d ''model_final.pth''))"
    and "dataset (run_setup fw) = None"
  unfolding inference_cfg_def run_setup_ok [OF assms]
  using cell_predictor_effect(3,4,5) [OF state_before_predictor(1,2) [OF assms]]
  by (simp_all add: state_before_predictor(3,4) [OF assms] training_cfg_lookup cfg_int_update update_conv')

subsection \<open>Reading a trace\<close>

lemma steps_append: "steps (a @ b) = steps a @ steps b"
  by (simp add: steps_def List.map_filter_def)

lemma steps_simps:
  "steps [] = []"
  "steps (e # t) = (case step_of e of None \<Rightarrow> [] | Some s \<Rightarrow> [s]) @ steps t"
  by (simp_all add: steps_def split: option.splits)

lemma registrations_append: "registrations (a @ b) = registrations a @ registrations b"
  by (simp add: registrations_def List.map_filter_def)

lemma registrations_simps:
  "registrations [] = []"
  "registrations (e # t) =
     (case e of RegisterCocoInstances n j r \<Rightarrow> [(n, j, r)] | _ \<Rightarrow> []) @ registrations t"
  by (simp_all add: registrations_def split: event.splits)



lemma inference_event_kind:
  assumes "inference_event e"
  shows "\<not> starts_training e" "\<not> is_merge e" "\<not> is_train e" "\<not> builds_predictor e"
    "(case e of RegisterCocoInstances n j r \<Rightarrow> Some (n, j, r) | _ \<Rightarrow> None) = None"
    "(case e of SetCfg k v \<Rightarrow> Some k | _ \<Rightarrow> None) = None"
  using assms by (cases e; simp)+

lemma inference_events:
  assumes "list_all inference_event rest"
  shows "registrations rest = []" and "assigned_keys rest = []"
    and "takeWhile (\<lambda>e. \<not> starts_training e) rest = rest"
    and "takeWhile (\<lambda>e. \<not> builds_predictor e) rest = rest"
    and "DefaultTrainer c \<notin> set rest" and "DefaultPredictor c \<notin> set rest"
  using assms
  by (induction rest) (auto simp: registrations_def assigned_keys_def inference_event_kind)

lemma starts_trainingE: "starts_training e \<Longrightarrow> \<exists>c. e = DefaultTrainer c"
  by (cases e) simp_all

subsection \<open>The last cell and the whole run\<close>

lemma run_all_snoc:
  "ss \<noteq> [] \<Longrightarrow> run_all (ss @ [s]) w =
     (if raised (run_all ss w) = None then s (run_all ss w) else run_all ss w)"
proof (induction ss arbitrary: w)
  case Nil
  then show ?case by simp
next
  case (Cons a ss)
  show ?case
  proof (cases "ss = []")
    case True
    then show ?thesis by (simp add: Let_def)
  next
    case False
    from Cons.IH [OF False] show ?thesis by (cases "raised (a w)") (simp_all add: Let_def)
  qed
qed

lemma notebook_unfold:
  "notebook fw =
     (if raised (run_setup fw) = None then cell_inference fw (run_setup fw) else run_setup fw)"
proof -
  have ne: "[cell_download, cell_register, cell_config fw, cell_train, cell_predictor] \<noteq> []"
    by simp
  have "notebook fw =
      run_all ([cell_download, cell_register, cell_config fw, cell_train, cell_predictor] @
               [cell_inference fw]) init_world"
    by (simp only: notebook_def append.simps)
  also have "\<dots> = (if raised (run_setup fw) = None then cell_inference fw (run_setup fw)
                    else run_setup fw)"
    unfolding run_setup_def by (rule run_all_snoc [OF ne])
  finally show ?thesis .
qed

lemma cell_inference_unbound:
  assumes "raised w = None" and "dataset w = None"
  shows "trace (cell_inference fw w) = trace w @ [PickleLoad ''labels.pkl'']"
    and "raised (cell_inference fw w) = Some NameError"
  using assms by (simp_all add: cell_inference_def Let_def)

lemma notebook_fail:
  assumes "cfg_str (merged_cfg fw) ''OUTPUT_DIR'' = Inl e"
  shows "notebook fw = run_setup fw" and "raised (notebook fw) = Some e"
  using assms by (simp_all add: notebook_unfold run_setup_raised)

lemma notebook_ok:
  assumes "cfg_str (merged_cfg fw) ''OUTPUT_DIR'' = Inr d"
  shows "trace (notebook fw) = trace (run_setup fw) @ [PickleLoad ''labels.pkl'']"
    and "raised (notebook fw) = Some NameError"
proof -
  have r: "raised (run_setup fw) = None" using assms by (simp add: run_setup_raised)
  have nb: "notebook fw = cell_inference fw (run_setup fw)"
    using r by (simp add: notebook_unfold)
  show "trace (notebook fw) = trace (run_setup fw) @ [PickleLoad ''labels.pkl'']"
    unfolding nb by (rule cell_inference_unbound(1) [OF r run_setup_state(4) [OF assms]])
  show "raised (notebook fw) = Some NameError"
    unfolding nb by (rule cell_inference_unbound(2) [OF r run_setup_state(4) [OF assms]])
qed

lemma notebook_trace:
  "\<exists>rest. trace (notebook fw) = trace (run_setup fw) @ rest \<and> list_all inference_event rest"
proof (cases "cfg_str (merged_cfg fw) ''OUTPUT_DIR''")
  case (Inl e)
  then show ?thesis by (intro exI [of _ "[]"]) (simp add: notebook_fail)
next
  case (Inr d)
  then show ?thesis
    by (intro exI [of _ "[PickleLoad ''labels.pkl'']"]) (simp add: notebook_ok)
qed

lemma notebook_steps:
  "steps (trace (notebook fw)) =
     (case cfg_str (merged_cfg fw) ''OUTPUT_DIR'' of
        Inl e \<Rightarrow> [LoadConfiguration]
      | Inr d \<Rightarrow> [LoadConfiguration, TrainModel, LoadTrainedWeights])"
proof (cases "cfg_str (merged_cfg fw) ''OUTPUT_DIR''")
  case (Inl e)
  show ?thesis
    unfolding notebook_fail(1) [OF Inl] run_setup_trace by (simp add: Inl steps_simps)
next
  case (Inr d)
  show ?thesis
    unfolding notebook_ok(1) [OF Inr] run_setup_trace
    by (simp add: Inr steps_simps steps_append)
qed

lemma persist_in_pipeline_order: "PersistResults \<in> set (pipeline_order n)"
  by (simp add: pipeline_order_def)

subsection \<open>The sample run\<close>


lemma sample_run_trains: "list_ex starts_training (trace (notebook sample_framework))"
  by code_simp

subsection \<open>Order of the pipeline\<close>

text \<open>
  C5. The claim: the run loads the configuration, trains, loads the trained weights,
  predicts on each validation image, reshapes each prediction and persists the results, in
  this order. The last cell iterates over \<^verbatim>\<open>dataset\<close>, a name that nothing in the notebook
  binds (the cell loads \<^verbatim>\<open>labels\<close> and never uses it). A run from the top follows the order
  up to the construction of the predictor and then stops with \<^verbatim>\<open>NameError\<close>: whatever the
  framework does, no image is predicted, no prediction is reshaped and
  \<^verbatim>\<open>predictions.pkl\<close> is not written, so the steps of the run are never the pipeline of the
  claim, for any number of images.
\<close>

theorem notebook_stops_before_inference:
  "raised (notebook fw) =
     (case cfg_str (merged_cfg fw) ''OUTPUT_DIR'' of
        Inl e \<Rightarrow> Some e
      | Inr d \<Rightarrow> Some NameError) \<and>
   steps (trace (notebook fw)) =
     (case cfg_str (merged_cfg fw) ''OUTPUT_DIR'' of
        Inl e \<Rightarrow> [LoadConfiguration]
      | Inr d \<Rightarrow> [LoadConfiguration, TrainModel, LoadTrainedWeights]) \<and>
   steps (trace (notebook fw)) \<noteq> pipeline_order n"
proof -
  have r: "raised (notebook fw) =
     (case cfg_str (merged_cfg fw) ''OUTPUT_DIR'' of
        Inl e \<Rightarrow> Some e
      | Inr d \<Rightarrow> Some NameError)"
    by (cases "cfg_str (merged_cfg fw) ''OUTPUT_DIR''")
      (simp_all add: notebook_fail(2) notebook_ok(2))
  have "PersistResults \<notin> set (steps (trace (notebook fw)))"
    unfolding notebook_steps
    by (cases "cfg_str (merged_cfg fw) ''OUTPUT_DIR''") simp_all
  then have "steps (trace (notebook fw)) \<noteq> pipeline_order n"
    using persist_in_pipeline_order [of n] by auto
  with r notebook_steps [of fw] show ?thesis by (intro conjI)
qed

subsection \<open>Registered datasets\<close>

text \<open>
  C6. Before the trainer is invoked the notebook registers exactly two datasets,
  \<^verbatim>\<open>my_dataset_train\<close> and \<^verbatim>\<open>my_dataset_val\<close>, each with its annotation file and its image
  directory; it registers no other dataset later; and the configuration handed to the
  trainer has them as its training and test datasets.
\<close>

theorem notebook_registers_datasets:
  "registrations (before_training (trace (notebook fw))) =
     [(''my_dataset_train'', ''instances_train2017_5labels.json'', ''../data/coco/train2017''),
      (''my_dataset_val'', ''instances_val2017_5labels.json'', ''../data/coco/val2017'')] \<and>
   registrations (trace (notebook fw)) =
     [(''my_dataset_train'', ''instances_train2017_5labels.json'', ''../data/coco/train2017''),
      (''my_dataset_val'', ''instances_val2017_5labels.json'', ''../data/coco/val2017'')] \<and>
   (\<forall>c. DefaultTrainer c \<in> set (trace (notebook fw)) \<longrightarrow>
      map_of c ''DATASETS.TRAIN'' = Some (CTuple [''my_dataset_train'']) \<and>
      map_of c ''DATASETS.TEST'' = Some (CTuple [''my_dataset_val'']))"
proof -
  from notebook_trace [of fw] obtain rest where
    t: "trace (notebook fw) = trace (run_setup fw) @ rest" and
    rest: "list_all inference_event rest"
    by (elim exE conjE) (rule that)
  note ev = inference_events [OF rest]
  show ?thesis
  proof (cases "cfg_str (merged_cfg fw) ''OUTPUT_DIR''")
    case (Inl e)
    show ?thesis
      unfolding t run_setup_trace before_training_def
      by (simp add: Inl registrations_append registrations_simps ev)
  next
    case (Inr d)
    show ?thesis
      unfolding t run_setup_trace before_training_def
      by (simp add: Inr registrations_append registrations_simps training_cfg_lookup ev)
  qed
qed

theorem notebook_registers_datasets_witness:
  "\<exists>c. DefaultTrainer c \<in> set (trace (notebook sample_framework)) \<and>
       map_of c ''DATASETS.TRAIN'' = Some (CTuple [''my_dataset_train'']) \<and>
       map_of c ''DATASETS.TEST'' = Some (CTuple [''my_dataset_val''])"
proof -
  let ?nb = "notebook sample_framework"
  from sample_run_trains obtain e where e: "e \<in> set (trace ?nb)" "starts_training e"
    unfolding list_ex_iff by (elim bexE)
  from starts_trainingE [OF e(2)] obtain c where c: "e = DefaultTrainer c"
    by (elim exE)
  from notebook_registers_datasets [of sample_framework]
  have "\<forall>c. DefaultTrainer c \<in> set (trace ?nb) \<longrightarrow>
      map_of c ''DATASETS.TRAIN'' = Some (CTuple [''my_dataset_train'']) \<and>
      map_of c ''DATASETS.TEST'' = Some (CTuple [''my_dataset_val''])"
    by (elim conjE)
  with e(1) c show ?thesis by (intro exI [of _ c]) simp
qed

subsection \<open>Configuration fields\<close>



end
